theory Spec2Isabelle
  imports Main "HOL-Library.Word" "HOL-Library.List_Lexorder"
begin

unbundle bit_operations_syntax

section \<open>Data model of \<^verbatim>\<open>extract_payload.py\<close>\<close>

text \<open>
  A Python \<^verbatim>\<open>bytes\<close> object is a list of 8-bit words. Python integers are unbounded;
  every integer the decoder produces is non-negative, so they are naturals.
  A Python \<^verbatim>\<open>str\<close> is represented by its UTF-8 encoding (a byte list that passes
  \<^verbatim>\<open>utf8_valid\<close> below); two strings are equal exactly when their encodings are.
\<close>

type_synonym byte = "8 word"
type_synonym bytes = "byte list"
type_synonym str = "byte list"

text \<open>
  The value the wire decoder yields for a field is an \<^verbatim>\<open>int\<close> (wire types 0, 1, 5) or a
  \<^verbatim>\<open>bytes\<close> slice (wire type 2). The dataclass fields are not type checked at run time,
  so a field of \<^verbatim>\<open>Operation\<close> holds whichever of the two the manifest supplied.
\<close>

datatype pyval = PInt nat | PBytes bytes

text \<open>The label \<^verbatim>\<open>OP_NAMES.get(op_type, op_type)\<close> of an unsupported operation.\<close>

datatype kind_label = KindName string | KindRaw pyval

text \<open>The exceptions the program can raise, with the data their messages carry.\<close>

datatype exn =
    TruncatedVarint
  | UnknownWireType nat
  | StructError
  | TypeError
  | AttributeError
  | UnicodeDecodeError
  | InvalidMagic bytes
  | UnsupportedVersion nat
  | IncrementalNotSupported "string option"
  | Unsupported kind_label
  | CodecError
  | KeyError
  | OverflowError
  | OSError

record Operation =
  op_type :: pyval
  data_offset :: pyval
  data_length :: pyval
  dst_extents :: "(pyval \<times> pyval) list"
  data_sha256 :: pyval

text \<open>
  \<^verbatim>\<open>Partition.size\<close> and \<^verbatim>\<open>Payload.data_offset\<close> are renamed: \<^verbatim>\<open>size\<close> is a constant of
  HOL and \<^verbatim>\<open>data_offset\<close> is already the field of \<^verbatim>\<open>Operation\<close>.
\<close>

record Partition =
  name :: str
  operations :: "Operation list"
  size_p :: pyval

record Payload =
  path :: str
  data_offset_p :: nat
  block_size :: pyval
  partitions :: "Partition list"



definition OP_REPLACE :: nat where "OP_REPLACE = 0"
definition OP_REPLACE_BZ :: nat where "OP_REPLACE_BZ = 1"
definition OP_SOURCE_COPY :: nat where "OP_SOURCE_COPY = 4"
definition OP_SOURCE_BSDIFF :: nat where "OP_SOURCE_BSDIFF = 5"
definition OP_ZERO :: nat where "OP_ZERO = 6"
definition OP_REPLACE_XZ :: nat where "OP_REPLACE_XZ = 8"
definition OP_PUFFDIFF :: nat where "OP_PUFFDIFF = 9"

text \<open>The dictionary \<^verbatim>\<open>OP_NAMES\<close>; a \<^verbatim>\<open>bytes\<close> key is never in it.\<close>

fun OP_NAMES :: "pyval \<Rightarrow> string option" where
  "OP_NAMES (PBytes b) = None"
| "OP_NAMES (PInt n) =
     (if n = 0 then Some ''REPLACE''
      else if n = 1 then Some ''REPLACE_BZ''
      else if n = 4 then Some ''SOURCE_COPY''
      else if n = 5 then Some ''SOURCE_BSDIFF''
      else if n = 6 then Some ''ZERO''
      else if n = 8 then Some ''REPLACE_XZ''
      else if n = 9 then Some ''PUFFDIFF''
      else if n = 14 then Some ''ZSTD''
      else if n = 15 then Some ''LZ4''
      else None)"



section \<open>Wire decoder\<close>

text \<open>
  \<^verbatim>\<open>read_varint\<close>: the loop carries \<^verbatim>\<open>pos\<close>, \<^verbatim>\<open>result\<close> and \<^verbatim>\<open>shift\<close>; leaving the loop
  without a terminating byte raises \<^verbatim>\<open>ValueError("Truncated varint")\<close>.
\<close>

function read_varint_loop :: "bytes \<Rightarrow> nat \<Rightarrow> nat \<Rightarrow> nat \<Rightarrow> exn + (nat \<times> nat)" where
  "read_varint_loop data pos result shift =
     (if pos < length data then
        (let byte = data ! pos;
             pos' = pos + 1;
             result' = result OR push_bit shift (unat (byte AND 0x7F))
         in if byte < 0x80 then Inr (result', pos')
            else read_varint_loop data pos' result' (shift + 7))
      else Inl TruncatedVarint)"
  by pat_completeness auto
termination
  by (relation "measure (\<lambda>(data, pos, result, shift). length data - pos)") auto

declare read_varint_loop.simps [simp del]

definition read_varint :: "bytes \<Rightarrow> nat \<Rightarrow> exn + (nat \<times> nat)" where
  "read_varint data pos = read_varint_loop data pos 0 0"

text \<open>
  \<^verbatim>\<open>struct.unpack\<close> of one unsigned integer: \<^verbatim>\<open>struct.error\<close> unless the buffer has
  exactly the size of the format.
\<close>

definition le_value :: "bytes \<Rightarrow> nat" where
  "le_value bs = foldr (\<lambda>b acc. unat b + 256 * acc) bs 0"


definition unpack_le :: "nat \<Rightarrow> bytes \<Rightarrow> exn + nat" where
  "unpack_le n bs = (if length bs = n then Inr (le_value bs) else Inl StructError)"


text \<open>The slice \<^verbatim>\<open>data[a:a + n]\<close> for non-negative \<^verbatim>\<open>a\<close> and \<^verbatim>\<open>n\<close>: it never raises.\<close>

definition pyslice :: "'a list \<Rightarrow> nat \<Rightarrow> nat \<Rightarrow> 'a list" where
  "pyslice data a n = take n (drop a data)"

text \<open>
  One pass through the body of the \<^verbatim>\<open>while\<close> loop of \<^verbatim>\<open>iter_fields\<close>, entered at \<^verbatim>\<open>pos\<close>:
  the exception it raises, or the pair it yields and the position it leaves.
\<close>

definition field_at :: "bytes \<Rightarrow> nat \<Rightarrow> exn + ((nat \<times> pyval) \<times> nat)" where
  "field_at data pos =
     (case read_varint data pos of
        Inl e \<Rightarrow> Inl e
      | Inr (tag, pos1) \<Rightarrow>
          (let field_num = drop_bit 3 tag;
               wire_type = tag AND 7
           in if wire_type = 0 then
                (case read_varint data pos1 of
                   Inl e \<Rightarrow> Inl e
                 | Inr (v, pos2) \<Rightarrow> Inr ((field_num, PInt v), pos2))
              else if wire_type = 2 then
                (case read_varint data pos1 of
                   Inl e \<Rightarrow> Inl e
                 | Inr (len, pos2) \<Rightarrow>
                     Inr ((field_num, PBytes (pyslice data pos2 len)), pos2 + len))
              else if wire_type = 1 then
                (case unpack_le 8 (pyslice data pos1 8) of
                   Inl e \<Rightarrow> Inl e
                 | Inr v \<Rightarrow> Inr ((field_num, PInt v), pos1 + 8))
              else if wire_type = 5 then
                (case unpack_le 4 (pyslice data pos1 4) of
                   Inl e \<Rightarrow> Inl e
                 | Inr v \<Rightarrow> Inr ((field_num, PInt v), pos1 + 4))
              else Inl (UnknownWireType wire_type)))"

lemma read_varint_loop_advances:
  "read_varint_loop data pos r s = Inr (v, pos') \<Longrightarrow> pos < pos' \<and> pos' \<le> length data"
proof (induction data pos r s rule: read_varint_loop.induct)
  case (1 data pos result shift)
  show ?case
  proof (cases "pos < length data")
    case False
    with "1.prems" show ?thesis
      by (simp add: read_varint_loop.simps [of data pos])
  next
    case inb: True
    show ?thesis
    proof (cases "data ! pos < 0x80")
      case True
      with inb "1.prems" show ?thesis
        by (simp add: read_varint_loop.simps [of data pos] Let_def)
    next
      case False
      with inb "1.prems" have
        "read_varint_loop data (pos + 1)
           (result OR push_bit shift (unat (data ! pos AND 0x7F))) (shift + 7) = Inr (v, pos')"
        by (simp add: read_varint_loop.simps [of data pos] Let_def)
      with "1.IH" [OF inb refl refl refl False] show ?thesis
        by simp
    qed
  qed
qed

lemma read_varint_advances:
  "read_varint data pos = Inr (v, pos') \<Longrightarrow> pos < pos' \<and> pos' \<le> length data"
  unfolding read_varint_def by (rule read_varint_loop_advances)

lemma field_at_advances:
  assumes "field_at data pos = Inr (fv, pos')"
  shows "pos < pos'"
proof -
  from assms obtain tag pos1 where t: "read_varint data pos = Inr (tag, pos1)"
    by (auto simp: field_at_def split: sum.splits)
  then have p1: "pos < pos1"
    using read_varint_advances by blast
  from assms t have "pos1 \<le> pos'"
    by (auto simp: field_at_def Let_def split: sum.splits if_splits
        dest: read_varint_advances)
  with p1 show ?thesis by simp
qed

text \<open>
  \<^verbatim>\<open>iter_fields\<close> is a generator. What a consumer can observe of it is the finite
  sequence of pairs it yields and, when it stops by raising, the exception raised after
  the last pair: the model returns both.
\<close>

function iter_from :: "bytes \<Rightarrow> nat \<Rightarrow> (nat \<times> pyval) list \<times> exn option" where
  "iter_from data pos =
     (if pos < length data then
        (case field_at data pos of
           Inl e \<Rightarrow> ([], Some e)
         | Inr (fv, pos') \<Rightarrow> apfst ((#) fv) (iter_from data pos'))
      else ([], None))"
  by pat_completeness auto
termination iter_from
proof (relation "measure (\<lambda>(data, pos). length data - pos)")
  show "wf (measure (\<lambda>(data, pos). length data - pos))"
    by simp
next
  fix data :: bytes and pos x2 fv pos'
  assume "pos < length data" and "field_at data pos = Inr x2" and "(fv, pos') = x2"
  then have "pos < pos'"
    using field_at_advances [of data pos fv pos'] by simp
  with \<open>pos < length data\<close>
  show "((data, pos'), (data, pos)) \<in> measure (\<lambda>(data, pos). length data - pos)"
    by simp
qed

declare iter_from.simps [simp del]

definition iter_fields :: "bytes \<Rightarrow> (nat \<times> pyval) list \<times> exn option" where
  "iter_fields data = iter_from data 0"




section \<open>Manifest model builder\<close>














section \<open>Operation executor\<close>

text \<open>
  The destination image is the byte list of its contents. \<^verbatim>\<open>f_out.seek(off)\<close> followed
  by \<^verbatim>\<open>f_out.write(d)\<close> overwrites from \<^verbatim>\<open>off\<close> on and extends the file as needed; a gap
  between the old end of the file and \<^verbatim>\<open>off\<close> reads as zero bytes. Writing the empty
  buffer changes nothing. File offsets and buffer sizes are unbounded: the limits of the
  platform (\<^verbatim>\<open>OverflowError\<close>, \<^verbatim>\<open>MemoryError\<close>, a full disk) are outside the model.
\<close>

definition write_at :: "bytes \<Rightarrow> nat \<Rightarrow> bytes \<Rightarrow> bytes" where
  "write_at f off d =
     (if d = [] then f
      else take off f @ replicate (off - length f) 0 @ d @ drop (off + length d) f)"

text \<open>
  Python's \<^verbatim>\<open>*\<close> on the values a field can hold: the product of two integers, the
  repetition of a \<^verbatim>\<open>bytes\<close> value, or \<^verbatim>\<open>TypeError\<close> for two \<^verbatim>\<open>bytes\<close> values.
\<close>

fun py_mul :: "pyval \<Rightarrow> pyval \<Rightarrow> exn + pyval" where
  "py_mul (PInt a) (PInt b) = Inr (PInt (a * b))"
| "py_mul (PBytes x) (PInt n) = Inr (PBytes (concat (replicate n x)))"
| "py_mul (PInt n) (PBytes x) = Inr (PBytes (concat (replicate n x)))"
| "py_mul (PBytes x) (PBytes y) = Inl TypeError"

text \<open>The argument of \<^verbatim>\<open>seek\<close> and of \<^verbatim>\<open>read\<close> must be an integer.\<close>

fun as_offset :: "pyval \<Rightarrow> exn + nat" where
  "as_offset (PInt n) = Inr n"
| "as_offset (PBytes b) = Inl TypeError"

text \<open>\<^verbatim>\<open>bytes(v)\<close>: that many zero bytes for an integer, a copy for a \<^verbatim>\<open>bytes\<close> value.\<close>

fun py_bytes :: "pyval \<Rightarrow> bytes" where
  "py_bytes (PInt n) = replicate n 0"
| "py_bytes (PBytes b) = b"

text \<open>The truth value of a field in a condition.\<close>

fun truthy :: "pyval \<Rightarrow> bool" where
  "truthy (PInt n) = (n \<noteq> 0)"
| "truthy (PBytes b) = (b \<noteq> [])"

text \<open>
  The loops over \<^verbatim>\<open>op.dst_extents\<close> return the exception that ended them, if any, and
  the contents of the destination at that moment: what was written before an exception
  stays written.
\<close>

fun write_zeros :: "pyval \<Rightarrow> (pyval \<times> pyval) list \<Rightarrow> bytes \<Rightarrow> exn option \<times> bytes" where
  "write_zeros bs [] f = (None, f)"
| "write_zeros bs ((start, num) # es) f =
     (case py_mul start bs of
        Inl e \<Rightarrow> (Some e, f)
      | Inr off \<Rightarrow>
          (case as_offset off of
             Inl e \<Rightarrow> (Some e, f)
           | Inr seek \<Rightarrow>
               (case py_mul num bs of
                  Inl e \<Rightarrow> (Some e, f)
                | Inr n \<Rightarrow> write_zeros bs es (write_at f seek (py_bytes n)))))"

fun write_extents ::
  "pyval \<Rightarrow> bytes \<Rightarrow> nat \<Rightarrow> (pyval \<times> pyval) list \<Rightarrow> bytes \<Rightarrow> exn option \<times> bytes" where
  "write_extents bs data pos [] f = (None, f)"
| "write_extents bs data pos ((start, num) # es) f =
     (case py_mul num bs of
        Inl e \<Rightarrow> (Some e, f)
      | Inr sz \<Rightarrow>
          (case py_mul start bs of
             Inl e \<Rightarrow> (Some e, f)
           | Inr off \<Rightarrow>
               (case as_offset off of
                  Inl e \<Rightarrow> (Some e, f)
                | Inr seek \<Rightarrow>
                    (case as_offset sz of
                       Inl e \<Rightarrow> (Some e, f)
                     | Inr n \<Rightarrow>
                         write_extents bs data (pos + n) es
                           (write_at f seek (pyslice data pos n))))))"

text \<open>
  \<^verbatim>\<open>decompress\<close>. The codecs \<^verbatim>\<open>lzma.decompress\<close> and \<^verbatim>\<open>bz2.decompress\<close> belong to the
  Python library and are parameters: \<^verbatim>\<open>None\<close> stands for any exception they raise.
\<close>

definition decompress ::
  "(bytes \<Rightarrow> bytes option) \<Rightarrow> (bytes \<Rightarrow> bytes option) \<Rightarrow> bytes \<Rightarrow> pyval \<Rightarrow> exn + bytes" where
  "decompress lzma bz2 data t =
     (if t = PInt OP_REPLACE then Inr data
      else if t = PInt OP_REPLACE_XZ then
        (case lzma data of None \<Rightarrow> Inl CodecError | Some d \<Rightarrow> Inr d)
      else if t = PInt OP_REPLACE_BZ then
        (case bz2 data of None \<Rightarrow> Inl CodecError | Some d \<Rightarrow> Inr d)
      else Inl (Unsupported (case OP_NAMES t of Some n \<Rightarrow> KindName n | None \<Rightarrow> KindRaw t)))"

text \<open>
  How \<^verbatim>\<open>extract_partition\<close> and \<^verbatim>\<open>cmd_extract\<close> end: \<^verbatim>\<open>Done\<close> is \<^verbatim>\<open>return True\<close>,
  \<^verbatim>\<open>Failed r\<close> is \<^verbatim>\<open>return False\<close> after printing \<^verbatim>\<open>r\<close>, and \<^verbatim>\<open>Raised e\<close> is an exception
  that leaves the function.
\<close>

datatype report = HashMismatch nat | ErrorMessage exn | NotFound str "str list"

datatype outcome = Done | Failed report | Raised exn

text \<open>
  One pass through the body of the loop of \<^verbatim>\<open>extract_partition\<close>, for operation \<^verbatim>\<open>op\<close> at
  index \<^verbatim>\<open>i\<close>; \<^verbatim>\<open>Done\<close> means the loop goes on. \<^verbatim>\<open>fin\<close> is the contents of the payload file
  and \<^verbatim>\<open>f\<close> those of the destination. \<^verbatim>\<open>sha256\<close> stands for
  \<^verbatim>\<open>hashlib.sha256(_).digest()\<close>. The progress line is not modelled.
\<close>

definition exec_op ::
  "(bytes \<Rightarrow> bytes) \<Rightarrow> (bytes \<Rightarrow> bytes option) \<Rightarrow> (bytes \<Rightarrow> bytes option) \<Rightarrow>
   Payload \<Rightarrow> bytes \<Rightarrow> nat \<Rightarrow> Operation \<Rightarrow> bytes \<Rightarrow> outcome \<times> bytes" where
  "exec_op sha256 lzma bz2 payload fin i op f =
     (if op_type op = PInt OP_ZERO then
        (case write_zeros (block_size payload) (dst_extents op) f of
           (None, f') \<Rightarrow> (Done, f')
         | (Some e, f') \<Rightarrow> (Raised e, f'))
      else if op_type op = PInt OP_SOURCE_COPY \<or> op_type op = PInt OP_SOURCE_BSDIFF
              \<or> op_type op = PInt OP_PUFFDIFF then
        (Raised (IncrementalNotSupported (OP_NAMES (op_type op))), f)
      else
        (case as_offset (data_offset op) of
           Inl e \<Rightarrow> (Raised e, f)
         | Inr off \<Rightarrow>
             (case as_offset (data_length op) of
                Inl e \<Rightarrow> (Raised e, f)
              | Inr len \<Rightarrow>
                  (let compressed = pyslice fin (data_offset_p payload + off) len in
                   if truthy (data_sha256 op) \<and> PBytes (sha256 compressed) \<noteq> data_sha256 op
                   then (Failed (HashMismatch i), f)
                   else
                     (case decompress lzma bz2 compressed (op_type op) of
                        Inl e \<Rightarrow> (Failed (ErrorMessage e), f)
                      | Inr data \<Rightarrow>
                          (case write_extents (block_size payload) data 0 (dst_extents op) f of
                             (None, f') \<Rightarrow> (Done, f')
                           | (Some e, f') \<Rightarrow> (Raised e, f')))))))"

text \<open>The loop of \<^verbatim>\<open>extract_partition\<close> from index \<^verbatim>\<open>i\<close> on.\<close>

fun extract_ops ::
  "(bytes \<Rightarrow> bytes) \<Rightarrow> (bytes \<Rightarrow> bytes option) \<Rightarrow> (bytes \<Rightarrow> bytes option) \<Rightarrow>
   Payload \<Rightarrow> bytes \<Rightarrow> nat \<Rightarrow> Operation list \<Rightarrow> bytes \<Rightarrow> outcome \<times> bytes" where
  "extract_ops sha256 lzma bz2 payload fin i [] f = (Done, f)"
| "extract_ops sha256 lzma bz2 payload fin i (op # ops) f =
     (case exec_op sha256 lzma bz2 payload fin i op f of
        (Done, f') \<Rightarrow> extract_ops sha256 lzma bz2 payload fin (i + 1) ops f'
      | (Failed r, f') \<Rightarrow> (Failed r, f')
      | (Raised e, f') \<Rightarrow> (Raised e, f'))"

section \<open>Extraction orchestrator\<close>

text \<open>
  The file system is a collaborator: its state has an abstract type and its operations
  are parameters. \<^verbatim>\<open>open_rb\<close> opens a file for reading and gives its contents;
  \<^verbatim>\<open>open_wb\<close> creates or truncates a file (a failed open changes nothing); \<^verbatim>\<open>close_out\<close>
  leaves the written contents in the file; \<^verbatim>\<open>mkdir\<close> is
  \<^verbatim>\<open>mkdir(parents=True, exist_ok=True)\<close>; \<^verbatim>\<open>stat_size\<close> is \<^verbatim>\<open>stat().st_size\<close>; \<^verbatim>\<open>join\<close> is the
  operator \<^verbatim>\<open>/\<close> of \<^verbatim>\<open>pathlib\<close>. The payload file is assumed not to be one of the
  destination files.
\<close>

record 'fs os =
  open_rb :: "str \<Rightarrow> 'fs \<Rightarrow> exn + bytes"
  open_wb :: "str \<Rightarrow> 'fs \<Rightarrow> exn + 'fs"
  close_out :: "str \<Rightarrow> bytes \<Rightarrow> 'fs \<Rightarrow> 'fs"
  mkdir :: "str \<Rightarrow> 'fs \<Rightarrow> exn option \<times> 'fs"
  stat_size :: "str \<Rightarrow> 'fs \<Rightarrow> exn + nat"
  join :: "str \<Rightarrow> str \<Rightarrow> str"

text \<open>
  \<^verbatim>\<open>extract_partition\<close>: the \<^verbatim>\<open>with\<close> statement opens the payload, then the destination
  (mode \<^verbatim>\<open>wb\<close>: it starts empty), runs the loop and closes both, also when the loop
  returns early or raises.
\<close>

definition extract_partition ::
  "'fs os \<Rightarrow> (bytes \<Rightarrow> bytes) \<Rightarrow> (bytes \<Rightarrow> bytes option) \<Rightarrow> (bytes \<Rightarrow> bytes option) \<Rightarrow>
   Payload \<Rightarrow> Partition \<Rightarrow> str \<Rightarrow> 'fs \<Rightarrow> outcome \<times> 'fs" where
  "extract_partition os sha256 lzma bz2 payload part output_path fs =
     (case open_rb os (path payload) fs of
        Inl e \<Rightarrow> (Raised e, fs)
      | Inr fin \<Rightarrow>
          (case open_wb os output_path fs of
             Inl e \<Rightarrow> (Raised e, fs)
           | Inr fs1 \<Rightarrow>
               (case extract_ops sha256 lzma bz2 payload fin 0 (operations part) [] of
                  (r, f) \<Rightarrow> (r, close_out os output_path f fs1))))"

text \<open>
  \<^verbatim>\<open>format_size\<close> compares its argument with 1024, which raises \<^verbatim>\<open>TypeError\<close> for a
  \<^verbatim>\<open>bytes\<close> value. For an integer it builds a text with floating-point division and
  formatting; that part is the parameter \<^verbatim>\<open>fmt\<close>, which may raise \<^verbatim>\<open>OverflowError\<close>.
\<close>

fun format_size :: "(nat \<Rightarrow> exn + string) \<Rightarrow> pyval \<Rightarrow> exn + string" where
  "format_size fmt (PBytes b) = Inl TypeError"
| "format_size fmt (PInt n) = fmt n"



text \<open>
  The dictionary \<^verbatim>\<open>{p.name: p for p in payload.partitions}\<close>: a later partition replaces
  an earlier one of the same name. \<^verbatim>\<open>sorted(by_name)\<close> is the sorted list of its keys
  (strings compare by code point, which is the byte order of their UTF-8 encodings).
\<close>

definition by_name :: "Partition list \<Rightarrow> str \<rightharpoonup> Partition" where
  "by_name ps = foldl (\<lambda>m p. m(name p \<mapsto> p)) Map.empty ps"

definition sorted_names :: "Partition list \<Rightarrow> str list" where
  "sorted_names ps = sort (remdups (map name ps))"

text \<open>The suffix \<^verbatim>\<open>.img\<close>.\<close>

definition img_suffix :: str where
  "img_suffix = [0x2E, 0x69, 0x6D, 0x67]"

text \<open>The second loop of \<^verbatim>\<open>cmd_extract\<close>.\<close>

fun extract_names ::
  "'fs os \<Rightarrow> (nat \<Rightarrow> exn + string) \<Rightarrow> (bytes \<Rightarrow> bytes) \<Rightarrow> (bytes \<Rightarrow> bytes option) \<Rightarrow>
   (bytes \<Rightarrow> bytes option) \<Rightarrow> Payload \<Rightarrow> str \<Rightarrow> str list \<Rightarrow> 'fs \<Rightarrow> outcome \<times> 'fs" where
  "extract_names os fmt sha256 lzma bz2 payload output_dir [] fs = (Done, fs)"
| "extract_names os fmt sha256 lzma bz2 payload output_dir (n # ns) fs =
     (case by_name (partitions payload) n of
        None \<Rightarrow> (Raised KeyError, fs)
      | Some part \<Rightarrow>
          (let out = join os output_dir (n @ img_suffix) in
           case format_size fmt (size_p part) of
             Inl e \<Rightarrow> (Raised e, fs)
           | Inr s \<Rightarrow>
               (case extract_partition os sha256 lzma bz2 payload part out fs of
                  (Done, fs1) \<Rightarrow>
                    (case stat_size os out fs1 of
                       Inl e \<Rightarrow> (Raised e, fs1)
                     | Inr sz \<Rightarrow>
                         (case format_size fmt (PInt sz) of
                            Inl e \<Rightarrow> (Raised e, fs1)
                          | Inr s' \<Rightarrow>
                              extract_names os fmt sha256 lzma bz2 payload output_dir ns fs1))
                | (Failed r, fs1) \<Rightarrow> (Failed r, fs1)
                | (Raised e, fs1) \<Rightarrow> (Raised e, fs1))))"

text \<open>
  \<^verbatim>\<open>cmd_extract\<close>: the first loop returns at the first requested name that is not a key
  of the dictionary, before the output directory is made.
\<close>

definition cmd_extract ::
  "'fs os \<Rightarrow> (nat \<Rightarrow> exn + string) \<Rightarrow> (bytes \<Rightarrow> bytes) \<Rightarrow> (bytes \<Rightarrow> bytes option) \<Rightarrow>
   (bytes \<Rightarrow> bytes option) \<Rightarrow> Payload \<Rightarrow> str list \<Rightarrow> str \<Rightarrow> 'fs \<Rightarrow> outcome \<times> 'fs" where
  "cmd_extract os fmt sha256 lzma bz2 payload names output_dir fs =
     (case find (\<lambda>n. by_name (partitions payload) n = None) names of
        Some n \<Rightarrow> (Failed (NotFound n (sorted_names (partitions payload))), fs)
      | None \<Rightarrow>
          (case mkdir os output_dir fs of
             (Some e, fs1) \<Rightarrow> (Raised e, fs1)
           | (None, fs1) \<Rightarrow>
               extract_names os fmt sha256 lzma bz2 payload output_dir names fs1))"

lemma iter_from_length:
  "length (fst (iter_from data pos)) \<le> length data - pos"
proof (induction data pos rule: iter_from.induct)
  case (1 data pos)
  show ?case
  proof (cases "pos < length data")
    case False
    then show ?thesis
      by (simp add: iter_from.simps [of data pos])
  next
    case inb: True
    show ?thesis
    proof (cases "field_at data pos")
      case (Inl e)
      with inb show ?thesis
        by (simp add: iter_from.simps [of data pos])
    next
      case (Inr r)
      obtain fv pos' where r: "r = (fv, pos')"
        by (cases r)
      from Inr r have adv: "pos < pos'"
        using field_at_advances by blast
      from "1.IH" [OF inb Inr r [symmetric]]
      have "length (fst (iter_from data pos')) \<le> length data - pos'" .
      with adv inb Inr r show ?thesis
        by (simp add: iter_from.simps [of data pos])
    qed
  qed
qed

section \<open>Claims about the wire decoder\<close>

text \<open>
  C10. For every finite byte buffer \<^verbatim>\<open>iter_fields\<close> yields a finite sequence of pairs:
  each pass of its loop that yields a field leaves the cursor strictly beyond where it
  entered, so the generator ends (normally or by raising) after at most as many fields
  as the buffer has bytes. The model is a total function: its termination proof is the
  strict advance of the cursor.
\<close>

theorem iter_fields_finite:
  "(field_at data pos = Inr (fv, pos') \<longrightarrow> pos < pos')
   \<and> length (fst (iter_fields data)) \<le> length data"
proof
  show "field_at data pos = Inr (fv, pos') \<longrightarrow> pos < pos'"
    by (simp add: field_at_advances)
next
  show "length (fst (iter_fields data)) \<le> length data"
    using iter_from_length [of data 0] by (simp add: iter_fields_def)
qed

theorem iter_fields_finite_witness:
  "field_at [0x08, 0x01] 0 = Inr ((1, PInt 1), 2) \<and> (0::nat) < 2
   \<and> length (fst (iter_fields [0x08, 0x01])) \<le> length [0x08 :: byte, 0x01]"
proof -
  have f: "field_at [0x08, 0x01] 0 = Inr ((1, PInt 1), 2)"
    by (simp add: field_at_def read_varint_def read_varint_loop.simps Let_def)
  from iter_fields_finite [of "[0x08, 0x01]" 0 "(1, PInt 1)" 2] f
  show ?thesis by simp
qed

text \<open>
  C5. The wire decoder is to fail whenever it needs bytes past the end of the buffer.
  It does for a truncated varint (\<^verbatim>\<open>ValueError\<close>) and for a truncated fixed-width value
  (\<^verbatim>\<open>struct.error\<close>), but not for the payload of a length-delimited field: that is
  taken with a slice, which silently stops at the end of the buffer, so a field that
  declares five bytes and has one is yielded with the one byte and the generator ends
  normally.
\<close>

theorem length_delimited_truncated_is_yielded:
  "iter_fields [0x0A, 0x05, 0x41] = ([(1, PBytes [0x41])], None)
   \<and> iter_fields [0x08, 0x85] = ([], Some TruncatedVarint)
   \<and> iter_fields [0x09, 0x41] = ([], Some StructError)
   \<and> iter_fields [0x0D, 0x41] = ([], Some StructError)"
  by (simp add: iter_fields_def iter_from.simps field_at_def read_varint_def
      read_varint_loop.simps Let_def pyslice_def unpack_le_def)

section \<open>Stand-ins for the library in concrete instances\<close>

text \<open>
  The theorems below hold for every digest function and every codec. Where an instance
  is evaluated on concrete data, the digest is replaced by a 32-byte checksum and the
  codecs by one that rejects every input and one that doubles its input.
\<close>

definition sum_digest :: "bytes \<Rightarrow> bytes" where
  "sum_digest data = replicate 31 0 @ [sum_list data]"

definition no_codec :: "bytes \<Rightarrow> bytes option" where
  "no_codec data = None"

definition twice_codec :: "bytes \<Rightarrow> bytes option" where
  "twice_codec data = Some (data @ data)"

text \<open>
  A file system in memory, as a list of paths with their contents, and a formatter
  that prints nothing: stand-ins for the collaborators of \<^verbatim>\<open>cmd_extract\<close>.
\<close>

definition mem_os :: "(str \<times> bytes) list os" where
  "mem_os =
     \<lparr>open_rb = (\<lambda>p fs. case map_of fs p of None \<Rightarrow> Inl OSError | Some d \<Rightarrow> Inr d),
      open_wb = (\<lambda>p fs. Inr ((p, []) # fs)),
      close_out = (\<lambda>p d fs. (p, d) # fs),
      mkdir = (\<lambda>p fs. (None, fs)),
      stat_size = (\<lambda>p fs. case map_of fs p of None \<Rightarrow> Inl OSError | Some d \<Rightarrow> Inr (length d)),
      join = (\<lambda>d n. d @ [0x2F] @ n)\<rparr>"

definition blank_fmt :: "nat \<Rightarrow> exn + string" where
  "blank_fmt n = Inr []"

section \<open>Facts about the destination file and the extent loop\<close>

lemma length_write_at:
  "length (write_at f off d) = (if d = [] then length f else max (length f) (off + length d))"
  by (auto simp: write_at_def)

lemma nth_write_at:
  assumes "d \<noteq> []" and "i < max (length f) (off + length d)"
  shows "write_at f off d ! i =
     (if i < off then (if i < length f then f ! i else 0)
      else if i < off + length d then d ! (i - off)
      else f ! i)"
  using assms
  by (auto simp: write_at_def nth_append min_def)

lemma write_extents_closed_form:
  "write_extents (PInt bs) B pos (map (\<lambda>(s, n). (PInt s, PInt n)) es) f =
     (None, foldl (\<lambda>g i. write_at g (fst (es ! i) * bs)
                     (pyslice B (pos + sum_list (map (\<lambda>(s, n). n * bs) (take i es)))
                        (snd (es ! i) * bs)))
              f [0..<length es])"
proof (induction es arbitrary: pos f)
  case Nil
  show ?case by simp
next
  case (Cons e es)
  obtain s n where e: "e = (s, n)" by (cases e)
  have upt: "[0..<length (e # es)] = 0 # map Suc [0..<length es]"
    by (simp add: upt_conv_Cons map_Suc_upt del: upt_Suc)
  show ?case
    unfolding upt
    by (simp add: e Cons.IH foldl_map add.assoc del: upt_Suc)
qed

lemma write_extents_excess:
  "write_extents (PInt bs) B pos (map (\<lambda>(s, n). (PInt s, PInt n)) es) f =
   write_extents (PInt bs) (take (pos + sum_list (map (\<lambda>(s, n). n * bs) es)) B) pos
     (map (\<lambda>(s, n). (PInt s, PInt n)) es) f"
proof (induction es arbitrary: pos f)
  case Nil
  show ?case by simp
next
  case (Cons e es)
  obtain s n where e: "e = (s, n)" by (cases e)
  define m where "m = pos + n * bs + sum_list (map (\<lambda>(s, n). n * bs) es)"
  define g where "g = write_at f (s * bs) (pyslice B pos (n * bs))"
  have m: "pos + sum_list (map (\<lambda>(s, n). n * bs) (e # es)) = m"
    by (simp add: e m_def)
  have sl: "pyslice (take m B) pos (n * bs) = pyslice B pos (n * bs)"
    by (simp add: pyslice_def m_def drop_take min_def)
  have "write_extents (PInt bs) B pos (map (\<lambda>(s, n). (PInt s, PInt n)) (e # es)) f
      = write_extents (PInt bs) B (pos + n * bs) (map (\<lambda>(s, n). (PInt s, PInt n)) es) g"
    by (simp add: e g_def)
  also have "\<dots> = write_extents (PInt bs) (take m B) (pos + n * bs)
      (map (\<lambda>(s, n). (PInt s, PInt n)) es) g"
    unfolding m_def by (rule Cons.IH)
  also have "\<dots> = write_extents (PInt bs) (take m B) pos
      (map (\<lambda>(s, n). (PInt s, PInt n)) (e # es)) f"
    by (simp add: e g_def sl)
  finally show ?case
    unfolding m .
qed

text \<open>
  The operation with extents \<^verbatim>\<open>[(0, 1), (2, 1)]\<close> and a buffer of two blocks: what the
  destination holds afterwards in blocks 0, 2 and 1.
\<close>

lemma two_extents_block0:
  assumes len: "length B = 2 * bs"
  shows "pyslice (snd (write_extents (PInt bs) B 0 [(PInt 0, PInt 1), (PInt 2, PInt 1)] f)) 0 bs
         = take bs B"
proof (cases "bs = 0")
  case True
  then show ?thesis by (simp add: pyslice_def)
next
  case False
  with len have ne: "take bs B \<noteq> []" "take bs (drop bs B) \<noteq> []" by auto
  show ?thesis
    apply (rule nth_equalityI)
    using len False ne
     apply (auto simp add: pyslice_def length_write_at nth_write_at)
    done
qed

lemma two_extents_block2:
  assumes len: "length B = 2 * bs"
  shows "pyslice (snd (write_extents (PInt bs) B 0 [(PInt 0, PInt 1), (PInt 2, PInt 1)] f))
           (2 * bs) bs
         = drop bs B"
proof (cases "bs = 0")
  case True
  with len show ?thesis by (simp add: pyslice_def)
next
  case False
  with len have ne: "take bs B \<noteq> []" "take bs (drop bs B) \<noteq> []" by auto
  show ?thesis
    apply (rule nth_equalityI)
    using len False ne
     apply (auto simp add: pyslice_def length_write_at nth_write_at)
    done
qed

lemma two_extents_block1:
  assumes len: "length B = 2 * bs"
  shows "pyslice (snd (write_extents (PInt bs) B 0 [(PInt 0, PInt 1), (PInt 2, PInt 1)] f)) bs bs
         = pyslice (f @ replicate (2 * bs - length f) 0) bs bs"
proof (cases "bs = 0")
  case True
  with len show ?thesis by (simp add: pyslice_def)
next
  case False
  with len have ne: "take bs B \<noteq> []" "take bs (drop bs B) \<noteq> []" by auto
  show ?thesis
    apply (rule nth_equalityI)
    using len False ne
     apply (auto simp add: pyslice_def length_write_at nth_write_at nth_append)
    done
qed

section \<open>Claims about the operation executor\<close>



lemma exec_op_digest_mismatch:
  assumes kind: "op_type op = PInt OP_REPLACE \<or> op_type op = PInt OP_REPLACE_XZ
                 \<or> op_type op = PInt OP_REPLACE_BZ"
    and off: "data_offset op = PInt off"
    and len: "data_length op = PInt len"
    and present: "truthy (data_sha256 op)"
    and mismatch: "data_sha256 op \<noteq> PBytes (sha (pyslice fin (data_offset_p payload + off) len))"
  shows "exec_op sha lzma bz payload fin i op f = (Failed (HashMismatch i), f)"
  using assms
  by (auto simp: exec_op_def Let_def OP_REPLACE_def OP_REPLACE_XZ_def OP_REPLACE_BZ_def
      OP_ZERO_def OP_SOURCE_COPY_def OP_SOURCE_BSDIFF_def OP_PUFFDIFF_def)

text \<open>
  C1. For a Replace, ReplaceXz or ReplaceBz operation (with integer offset and length)
  whose expected digest is non-empty, the digest is computed over exactly the bytes read
  from the payload file at \<^verbatim>\<open>data_offset + op.data_offset\<close>, and a mismatch ends the
  extraction with the hash-mismatch report for that index. The result holds for every
  pair of codecs, so no decompression takes part in it, and the destination is
  unchanged. In particular a buffer that differs in one byte from the one the digest
  was computed from fails whenever the digest function tells the two apart (that
  SHA-256 does is a property of the hash, not of this program).
\<close>

theorem digest_mismatch_fails_before_decompress:
  assumes kind: "op_type op = PInt OP_REPLACE \<or> op_type op = PInt OP_REPLACE_XZ
                 \<or> op_type op = PInt OP_REPLACE_BZ"
    and off: "data_offset op = PInt off"
    and len: "data_length op = PInt len"
    and present: "truthy (data_sha256 op)"
  shows "(data_sha256 op \<noteq> PBytes (sha (pyslice fin (data_offset_p payload + off) len)) \<longrightarrow>
            exec_op sha lzma bz payload fin i op f = (Failed (HashMismatch i), f))
         \<and> (\<forall>c k b. data_sha256 op = PBytes (sha c)
                \<and> pyslice fin (data_offset_p payload + off) len = c[k := b]
                \<and> sha (c[k := b]) \<noteq> sha c \<longrightarrow>
              exec_op sha lzma bz payload fin i op f = (Failed (HashMismatch i), f))"
proof (intro conjI impI allI)
  assume "data_sha256 op \<noteq> PBytes (sha (pyslice fin (data_offset_p payload + off) len))"
  with kind off len present
  show "exec_op sha lzma bz payload fin i op f = (Failed (HashMismatch i), f)"
    by (rule exec_op_digest_mismatch)
next
  fix c k b
  assume a: "data_sha256 op = PBytes (sha c)
             \<and> pyslice fin (data_offset_p payload + off) len = c[k := b]
             \<and> sha (c[k := b]) \<noteq> sha c"
  then have "data_sha256 op \<noteq> PBytes (sha (pyslice fin (data_offset_p payload + off) len))"
    by auto
  with kind off len present
  show "exec_op sha lzma bz payload fin i op f = (Failed (HashMismatch i), f)"
    by (rule exec_op_digest_mismatch)
qed

theorem digest_mismatch_fails_before_decompress_witness:
  "exec_op sum_digest no_codec no_codec
     \<lparr>path = [], data_offset_p = 0, block_size = PInt 4096, partitions = []\<rparr>
     [0x41, 0x43] 0
     \<lparr>op_type = PInt OP_REPLACE, data_offset = PInt 0, data_length = PInt 2,
      dst_extents = [(PInt 0, PInt 1)], data_sha256 = PBytes (sum_digest [0x41, 0x42])\<rparr>
     [] = (Failed (HashMismatch 0), [])"
proof -
  let ?op = "\<lparr>op_type = PInt OP_REPLACE, data_offset = PInt 0, data_length = PInt 2,
      dst_extents = [(PInt 0, PInt 1)], data_sha256 = PBytes (sum_digest [0x41, 0x42])\<rparr>"
  let ?pl = "\<lparr>path = [], data_offset_p = 0, block_size = PInt 4096, partitions = []\<rparr>"
  have present: "truthy (data_sha256 ?op)"
    by (simp add: sum_digest_def)
  have differs: "data_sha256 ?op \<noteq> PBytes (sum_digest (pyslice [0x41, 0x43] (data_offset_p ?pl + 0) 2))"
    by (simp add: pyslice_def sum_digest_def)
  from digest_mismatch_fails_before_decompress
    [of ?op 0 2 sum_digest "[0x41, 0x43]" ?pl no_codec no_codec 0 "[]", OF _ _ _ present]
    differs
  show ?thesis by simp
qed




lemma exec_op_incremental:
  assumes "op_type op = PInt OP_SOURCE_COPY \<or> op_type op = PInt OP_SOURCE_BSDIFF
           \<or> op_type op = PInt OP_PUFFDIFF"
  shows "exec_op sha lzma bz payload fin i op f
           = (Raised (IncrementalNotSupported (OP_NAMES (op_type op))), f)"
    and "OP_NAMES (op_type op) \<noteq> None"
  using assms
  by (auto simp: exec_op_def OP_ZERO_def OP_SOURCE_COPY_def OP_SOURCE_BSDIFF_def OP_PUFFDIFF_def)

lemma exec_op_other_kind:
  assumes "op_type op \<notin> {PInt OP_REPLACE, PInt OP_REPLACE_BZ, PInt OP_SOURCE_COPY,
             PInt OP_SOURCE_BSDIFF, PInt OP_ZERO, PInt OP_REPLACE_XZ, PInt OP_PUFFDIFF}"
    and "data_offset op = PInt off" and "data_length op = PInt len"
  shows "exec_op sha lzma bz payload fin i op f =
     (if truthy (data_sha256 op)
         \<and> PBytes (sha (pyslice fin (data_offset_p payload + off) len)) \<noteq> data_sha256 op
      then (Failed (HashMismatch i), f)
      else (Failed (ErrorMessage (Unsupported
              (case OP_NAMES (op_type op) of Some n \<Rightarrow> KindName n
               | None \<Rightarrow> KindRaw (op_type op)))), f))"
  using assms
  by (simp add: exec_op_def decompress_def Let_def)

lemma exec_op_unsupported_no_write:
  assumes "op_type op \<notin> {PInt OP_REPLACE, PInt OP_REPLACE_BZ, PInt OP_ZERO, PInt OP_REPLACE_XZ}"
  shows "fst (exec_op sha lzma bz payload fin i op f) \<noteq> Done"
    and "snd (exec_op sha lzma bz payload fin i op f) = f"
  using assms
  by (auto simp: exec_op_def decompress_def Let_def split: sum.splits)

lemma exec_op_replace_family:
  assumes kind: "op_type op = PInt OP_REPLACE \<or> op_type op = PInt OP_REPLACE_XZ
                 \<or> op_type op = PInt OP_REPLACE_BZ"
    and off: "data_offset op = PInt off"
    and len: "data_length op = PInt len"
    and digest: "\<not> (truthy (data_sha256 op)
        \<and> PBytes (sha (pyslice fin (data_offset_p payload + off) len)) \<noteq> data_sha256 op)"
    and dec: "decompress lzma bz (pyslice fin (data_offset_p payload + off) len) (op_type op) = Inr B"
  shows "exec_op sha lzma bz payload fin i op f =
     (case write_extents (block_size payload) B 0 (dst_extents op) f of
        (None, f') \<Rightarrow> (Done, f') | (Some e, f') \<Rightarrow> (Raised e, f'))"
  using assms
  by (auto simp: exec_op_def Let_def OP_REPLACE_def OP_REPLACE_XZ_def OP_REPLACE_BZ_def
      OP_ZERO_def OP_SOURCE_COPY_def OP_SOURCE_BSDIFF_def OP_PUFFDIFF_def)

text \<open>
  C2. The executor writes the decompressed buffer \<^verbatim>\<open>B\<close> by walking the destination
  extents in declared order with a cursor into \<^verbatim>\<open>B\<close>: extent \<^verbatim>\<open>i = (start, num)\<close> is written
  at byte offset \<^verbatim>\<open>start * block_size\<close> and receives the slice of \<^verbatim>\<open>B\<close> that begins where
  the extents before it ended (the sum of their sizes) and is \<^verbatim>\<open>num * block_size\<close> bytes
  long. This is what the extent loop does for every buffer, and what a Replace-family
  operation does once its digest check and its decompression have passed. In
  particular, with extents \<^verbatim>\<open>[(0, 1), (2, 1)]\<close> and a buffer of two blocks, block 0 of the
  destination holds the first half, block 2 the second half, and block 1 is what it was
  before the operation (zero bytes where the file was shorter).
\<close>

theorem extents_partition_buffer:
  "(let written = foldl (\<lambda>g i. write_at g (fst (es ! i) * bs)
                     (pyslice B (sum_list (map (\<lambda>(s, n). n * bs) (take i es)))
                        (snd (es ! i) * bs)))
              f [0..<length es]
    in write_extents (PInt bs) B 0 (map (\<lambda>(s, n). (PInt s, PInt n)) es) f = (None, written)
       \<and> ((op_type op = PInt OP_REPLACE \<or> op_type op = PInt OP_REPLACE_XZ
             \<or> op_type op = PInt OP_REPLACE_BZ)
            \<and> data_offset op = PInt off \<and> data_length op = PInt len
            \<and> \<not> (truthy (data_sha256 op)
                  \<and> PBytes (sha (pyslice fin (data_offset_p payload + off) len)) \<noteq> data_sha256 op)
            \<and> decompress lzma bz (pyslice fin (data_offset_p payload + off) len) (op_type op)
                = Inr B
            \<and> block_size payload = PInt bs
            \<and> dst_extents op = map (\<lambda>(s, n). (PInt s, PInt n)) es \<longrightarrow>
           exec_op sha lzma bz payload fin i op f = (Done, written)))
   \<and> (length B = 2 * bs \<longrightarrow>
        (let f' = snd (write_extents (PInt bs) B 0 [(PInt 0, PInt 1), (PInt 2, PInt 1)] f)
         in pyslice f' 0 bs = take bs B
            \<and> pyslice f' (2 * bs) bs = drop bs B
            \<and> pyslice f' bs bs = pyslice (f @ replicate (2 * bs - length f) 0) bs bs))"
proof -
  define written where "written = foldl (\<lambda>g i. write_at g (fst (es ! i) * bs)
                     (pyslice B (sum_list (map (\<lambda>(s, n). n * bs) (take i es)))
                        (snd (es ! i) * bs)))
              f [0..<length es]"
  have loop: "write_extents (PInt bs) B 0 (map (\<lambda>(s, n). (PInt s, PInt n)) es) f
      = (None, written)"
    using write_extents_closed_form [of bs B 0 es f] by (simp add: written_def)
  have run: "exec_op sha lzma bz payload fin i op f = (Done, written)"
    if kind: "op_type op = PInt OP_REPLACE \<or> op_type op = PInt OP_REPLACE_XZ
             \<or> op_type op = PInt OP_REPLACE_BZ"
      and off: "data_offset op = PInt off" and len: "data_length op = PInt len"
      and digest: "\<not> (truthy (data_sha256 op)
          \<and> PBytes (sha (pyslice fin (data_offset_p payload + off) len)) \<noteq> data_sha256 op)"
      and dec: "decompress lzma bz (pyslice fin (data_offset_p payload + off) len) (op_type op)
          = Inr B"
      and bs: "block_size payload = PInt bs"
      and exts: "dst_extents op = map (\<lambda>(s, n). (PInt s, PInt n)) es"
  proof -
    have "exec_op sha lzma bz payload fin i op f =
       (case write_extents (block_size payload) B 0 (dst_extents op) f of
          (None, f') \<Rightarrow> (Done, f') | (Some e, f') \<Rightarrow> (Raised e, f'))"
      using kind off len digest dec by (rule exec_op_replace_family)
    with loop bs exts show ?thesis by simp
  qed
  have example: "let f' = snd (write_extents (PInt bs) B 0 [(PInt 0, PInt 1), (PInt 2, PInt 1)] f)
        in pyslice f' 0 bs = take bs B
           \<and> pyslice f' (2 * bs) bs = drop bs B
           \<and> pyslice f' bs bs = pyslice (f @ replicate (2 * bs - length f) 0) bs bs"
    if len: "length B = 2 * bs"
    unfolding Let_def
    using two_extents_block0 [OF len, of f] two_extents_block2 [OF len, of f]
      two_extents_block1 [OF len, of f]
    by (intro conjI)
  from loop run example show ?thesis
    unfolding written_def [symmetric] Let_def by blast
qed

theorem extents_partition_buffer_witness:
  "exec_op sum_digest no_codec no_codec
     \<lparr>path = [], data_offset_p = 0, block_size = PInt 2, partitions = []\<rparr>
     [1, 2, 3, 4] 0
     \<lparr>op_type = PInt OP_REPLACE, data_offset = PInt 0, data_length = PInt 4,
      dst_extents = [(PInt 0, PInt 1), (PInt 2, PInt 1)], data_sha256 = PBytes []\<rparr>
     [9, 9, 9]
     = (Done, [1, 2, 9, 0, 3, 4])
   \<and> length [1 :: byte, 2, 3, 4] = 2 * 2
   \<and> pyslice [1 :: byte, 2, 9, 0, 3, 4] 0 2 = take 2 [1, 2, 3, 4]
   \<and> pyslice [1 :: byte, 2, 9, 0, 3, 4] (2 * 2) 2 = drop 2 [1, 2, 3, 4]
   \<and> pyslice [1 :: byte, 2, 9, 0, 3, 4] 2 2 = pyslice ([9, 9, 9] @ replicate (2 * 2 - 3) 0) 2 2"
proof -
  let ?pl = "\<lparr>path = [], data_offset_p = 0, block_size = PInt 2, partitions = []\<rparr>"
  let ?op = "\<lparr>op_type = PInt OP_REPLACE, data_offset = PInt 0, data_length = PInt 4,
      dst_extents = [(PInt 0, PInt 1), (PInt 2, PInt 1)], data_sha256 = PBytes []\<rparr>"
  have loop: "write_extents (PInt 2) [1, 2, 3, 4] 0 [(PInt 0, PInt 1), (PInt 2, PInt 1)] [9, 9, 9]
     = (None, [1, 2, 9, 0, 3, 4])"
    by (simp add: write_at_def pyslice_def)
  have len: "length [1 :: byte, 2, 3, 4] = 2 * 2"
    by simp
  have dec: "decompress no_codec no_codec (pyslice [1, 2, 3, 4] (data_offset_p ?pl + 0) 4)
      (op_type ?op) = Inr [1, 2, 3, 4]"
    by (simp add: decompress_def pyslice_def)
  note inst = extents_partition_buffer
    [where es = "[(0, 1), (2, 1)]" and bs = 2 and B = "[1, 2, 3, 4]" and f = "[9, 9, 9]"
       and op = ?op and off = 0 and len = 4 and sha = sum_digest and fin = "[1, 2, 3, 4]"
       and payload = ?pl and lzma = no_codec and bz = no_codec and i = 0]
  from inst loop dec
  have run: "exec_op sum_digest no_codec no_codec ?pl [1, 2, 3, 4] 0 ?op [9, 9, 9]
      = (Done, [1, 2, 9, 0, 3, 4])"
    by (simp add: Let_def)
  from inst len
  have "let f' = snd (write_extents (PInt 2) [1, 2, 3, 4] 0
                   [(PInt 0, PInt 1), (PInt 2, PInt 1)] [9, 9, 9])
        in pyslice f' 0 2 = take 2 [1 :: byte, 2, 3, 4]
           \<and> pyslice f' (2 * 2) 2 = drop 2 [1, 2, 3, 4]
           \<and> pyslice f' 2 2 = pyslice ([9, 9, 9] @ replicate (2 * 2 - length [9 :: byte, 9, 9]) 0) 2 2"
    by blast
  with run loop len show ?thesis
    by (simp add: Let_def)
qed

text \<open>
  C3, as the code has it. The executor never compares the length of the decompressed
  buffer with the total size of the extents. A Replace-family operation with integer
  fields whose digest check and decompression pass completes successfully whatever the
  length of the buffer; the destination is the one obtained from the buffer cut to the
  total extent size, so bytes beyond it are ignored and a shorter buffer leaves the
  later extents short or unwritten.
\<close>

theorem buffer_length_not_checked:
  assumes kind: "op_type op = PInt OP_REPLACE \<or> op_type op = PInt OP_REPLACE_XZ
                 \<or> op_type op = PInt OP_REPLACE_BZ"
    and off: "data_offset op = PInt off"
    and len: "data_length op = PInt len"
    and digest: "\<not> (truthy (data_sha256 op)
        \<and> PBytes (sha (pyslice fin (data_offset_p payload + off) len)) \<noteq> data_sha256 op)"
    and dec: "decompress lzma bz (pyslice fin (data_offset_p payload + off) len) (op_type op) = Inr B"
    and bs: "block_size payload = PInt bs"
    and exts: "dst_extents op = map (\<lambda>(s, n). (PInt s, PInt n)) es"
  shows "exec_op sha lzma bz payload fin i op f =
     (Done, snd (write_extents (PInt bs) (take (sum_list (map (\<lambda>(s, n). n * bs) es)) B) 0
                   (dst_extents op) f))"
proof -
  have "fst (write_extents (PInt bs) B 0 (map (\<lambda>(s, n). (PInt s, PInt n)) es) f) = None"
    by (simp add: write_extents_closed_form)
  moreover have "write_extents (PInt bs) B 0 (map (\<lambda>(s, n). (PInt s, PInt n)) es) f
      = write_extents (PInt bs) (take (sum_list (map (\<lambda>(s, n). n * bs) es)) B) 0
          (map (\<lambda>(s, n). (PInt s, PInt n)) es) f"
    using write_extents_excess [of bs B 0 es f] by simp
  moreover have "exec_op sha lzma bz payload fin i op f =
     (case write_extents (block_size payload) B 0 (dst_extents op) f of
        (None, f') \<Rightarrow> (Done, f') | (Some e, f') \<Rightarrow> (Raised e, f'))"
    using kind off len digest dec by (rule exec_op_replace_family)
  ultimately show ?thesis
    using bs exts
    by (auto split: prod.splits option.splits)
qed


theorem buffer_length_not_checked_witness:
  "exec_op sum_digest twice_codec no_codec
     \<lparr>path = [], data_offset_p = 0, block_size = PInt 2, partitions = []\<rparr>
     [0x41, 0x42] 0
     \<lparr>op_type = PInt OP_REPLACE_XZ, data_offset = PInt 0, data_length = PInt 2,
      dst_extents = [(PInt 1, PInt 1)], data_sha256 = PBytes []\<rparr>
     [] = (Done, [0, 0, 0x41, 0x42])"
proof -
  let ?pl = "\<lparr>path = [], data_offset_p = 0, block_size = PInt 2, partitions = []\<rparr>"
  let ?op = "\<lparr>op_type = PInt OP_REPLACE_XZ, data_offset = PInt 0, data_length = PInt 2,
      dst_extents = [(PInt 1, PInt 1)], data_sha256 = PBytes []\<rparr>"
  have dec: "decompress twice_codec no_codec (pyslice [0x41, 0x42] (data_offset_p ?pl + 0) 2)
      (op_type ?op) = Inr [0x41, 0x42, 0x41, 0x42]"
    by (simp add: decompress_def twice_codec_def pyslice_def OP_REPLACE_def OP_REPLACE_XZ_def)
  from buffer_length_not_checked
    [where op = ?op and off = 0 and len = 2 and sha = sum_digest and fin = "[0x41, 0x42]"
       and payload = ?pl and lzma = twice_codec and bz = no_codec
       and B = "[0x41, 0x42, 0x41, 0x42]" and bs = 2 and es = "[(1, 1)]" and i = 0 and f = "[]"]
    dec
  have "exec_op sum_digest twice_codec no_codec ?pl [0x41, 0x42] 0 ?op [] =
     (Done, snd (write_extents (PInt 2)
        (take (sum_list (map (\<lambda>(s, n). n * 2) [(1, 1)])) [0x41, 0x42, 0x41, 0x42]) 0
        (dst_extents ?op) []))"
    by simp
  then show ?thesis
    by (simp add: write_at_def pyslice_def numeral_2_eq_2)
qed

text \<open>
  C3 as stated fails: a Replace operation whose buffer has one byte and whose single
  extent is one block of 4096 bytes completes successfully and writes the one byte.
\<close>

theorem short_buffer_is_accepted:
  "decompress no_codec no_codec [0x41] (PInt OP_REPLACE) = Inr [0x41]
   \<and> exec_op sum_digest no_codec no_codec
        \<lparr>path = [], data_offset_p = 0, block_size = PInt 4096, partitions = []\<rparr>
        [0x41] 0
        \<lparr>op_type = PInt OP_REPLACE, data_offset = PInt 0, data_length = PInt 1,
         dst_extents = [(PInt 0, PInt 1)], data_sha256 = PBytes []\<rparr>
        [] = (Done, [0x41])
   \<and> length [0x41 :: byte] \<noteq> 1 * 4096"
  by (simp add: exec_op_def decompress_def write_at_def pyslice_def Let_def
      OP_REPLACE_def OP_ZERO_def OP_SOURCE_COPY_def OP_SOURCE_BSDIFF_def OP_PUFFDIFF_def)

text \<open>
  C4, as the code has it. SourceCopy, SourceBsdiff and Puffdiff raise at once, before
  any read, an error that carries the name of the kind. Every other kind that is not
  Replace, ReplaceXz, ReplaceBz or Zero (Zstd and Lz4 among them) takes the common path:
  with integer offset and length, the source bytes are read and a present digest is
  checked first, so the operation ends with the hash-mismatch report when the digest
  does not match and with the unsupported-kind error (the name of the kind, or its
  number when it has no name) otherwise. No operation of an unsupported kind succeeds
  or writes to the destination; what earlier operations wrote remains.
\<close>

theorem unsupported_kinds_fail_without_writes:
  "(op_type op = PInt OP_SOURCE_COPY \<or> op_type op = PInt OP_SOURCE_BSDIFF
      \<or> op_type op = PInt OP_PUFFDIFF \<longrightarrow>
      exec_op sha lzma bz payload fin i op f
        = (Raised (IncrementalNotSupported (OP_NAMES (op_type op))), f)
      \<and> OP_NAMES (op_type op) \<noteq> None)
   \<and> (op_type op \<notin> {PInt OP_REPLACE, PInt OP_REPLACE_BZ, PInt OP_SOURCE_COPY,
          PInt OP_SOURCE_BSDIFF, PInt OP_ZERO, PInt OP_REPLACE_XZ, PInt OP_PUFFDIFF}
        \<and> data_offset op = PInt off \<and> data_length op = PInt len \<longrightarrow>
      exec_op sha lzma bz payload fin i op f =
        (if truthy (data_sha256 op)
            \<and> PBytes (sha (pyslice fin (data_offset_p payload + off) len)) \<noteq> data_sha256 op
         then (Failed (HashMismatch i), f)
         else (Failed (ErrorMessage (Unsupported
                 (case OP_NAMES (op_type op) of Some n \<Rightarrow> KindName n
                  | None \<Rightarrow> KindRaw (op_type op)))), f)))
   \<and> (op_type op \<notin> {PInt OP_REPLACE, PInt OP_REPLACE_BZ, PInt OP_ZERO, PInt OP_REPLACE_XZ} \<longrightarrow>
      fst (exec_op sha lzma bz payload fin i op f) \<noteq> Done
      \<and> snd (exec_op sha lzma bz payload fin i op f) = f)"
proof (intro conjI impI)
  assume k: "op_type op = PInt OP_SOURCE_COPY \<or> op_type op = PInt OP_SOURCE_BSDIFF
      \<or> op_type op = PInt OP_PUFFDIFF"
  from k show "exec_op sha lzma bz payload fin i op f
        = (Raised (IncrementalNotSupported (OP_NAMES (op_type op))), f)"
    by (rule exec_op_incremental)
  from k show "OP_NAMES (op_type op) \<noteq> None"
    by (rule exec_op_incremental)
next
  assume a: "op_type op \<notin> {PInt OP_REPLACE, PInt OP_REPLACE_BZ, PInt OP_SOURCE_COPY,
          PInt OP_SOURCE_BSDIFF, PInt OP_ZERO, PInt OP_REPLACE_XZ, PInt OP_PUFFDIFF}
        \<and> data_offset op = PInt off \<and> data_length op = PInt len"
  then show "exec_op sha lzma bz payload fin i op f =
        (if truthy (data_sha256 op)
            \<and> PBytes (sha (pyslice fin (data_offset_p payload + off) len)) \<noteq> data_sha256 op
         then (Failed (HashMismatch i), f)
         else (Failed (ErrorMessage (Unsupported
                 (case OP_NAMES (op_type op) of Some n \<Rightarrow> KindName n
                  | None \<Rightarrow> KindRaw (op_type op)))), f))"
    using exec_op_other_kind [where op = op and off = off and len = len] by blast
next
  assume u: "op_type op \<notin> {PInt OP_REPLACE, PInt OP_REPLACE_BZ, PInt OP_ZERO, PInt OP_REPLACE_XZ}"
  from u show "fst (exec_op sha lzma bz payload fin i op f) \<noteq> Done"
    by (rule exec_op_unsupported_no_write)
  from u show "snd (exec_op sha lzma bz payload fin i op f) = f"
    by (rule exec_op_unsupported_no_write)
qed

theorem unsupported_kinds_fail_without_writes_witness:
  "exec_op sum_digest no_codec no_codec
     \<lparr>path = [], data_offset_p = 0, block_size = PInt 4096, partitions = []\<rparr>
     [0x41] 0
     \<lparr>op_type = PInt 14, data_offset = PInt 0, data_length = PInt 1,
      dst_extents = [(PInt 0, PInt 1)], data_sha256 = PBytes []\<rparr>
     [0x07]
   = (Failed (ErrorMessage (Unsupported (KindName ''ZSTD''))), [0x07])
   \<and> exec_op sum_digest no_codec no_codec
     \<lparr>path = [], data_offset_p = 0, block_size = PInt 4096, partitions = []\<rparr>
     [0x41] 0
     \<lparr>op_type = PInt OP_SOURCE_COPY, data_offset = PInt 0, data_length = PInt 1,
      dst_extents = [(PInt 0, PInt 1)], data_sha256 = PBytes []\<rparr>
     [0x07]
   = (Raised (IncrementalNotSupported (Some ''SOURCE_COPY'')), [0x07])"
proof -
  let ?pl = "\<lparr>path = [], data_offset_p = 0, block_size = PInt 4096, partitions = []\<rparr>"
  let ?zstd = "\<lparr>op_type = PInt 14, data_offset = PInt 0, data_length = PInt 1,
      dst_extents = [(PInt 0, PInt 1)], data_sha256 = PBytes []\<rparr>"
  let ?copy = "\<lparr>op_type = PInt OP_SOURCE_COPY, data_offset = PInt 0, data_length = PInt 1,
      dst_extents = [(PInt 0, PInt 1)], data_sha256 = PBytes []\<rparr>"
  from unsupported_kinds_fail_without_writes
    [where op = ?zstd and sha = sum_digest and lzma = no_codec and bz = no_codec
       and payload = ?pl and fin = "[0x41]" and i = 0 and f = "[0x07]" and off = 0 and len = 1]
  have a: "exec_op sum_digest no_codec no_codec ?pl [0x41] 0 ?zstd [0x07]
      = (Failed (ErrorMessage (Unsupported (KindName ''ZSTD''))), [0x07])"
    by (simp add: OP_REPLACE_def OP_REPLACE_BZ_def OP_SOURCE_COPY_def OP_SOURCE_BSDIFF_def
        OP_ZERO_def OP_REPLACE_XZ_def OP_PUFFDIFF_def)
  from unsupported_kinds_fail_without_writes
    [where op = ?copy and sha = sum_digest and lzma = no_codec and bz = no_codec
       and payload = ?pl and fin = "[0x41]" and i = 0 and f = "[0x07]" and off = 0 and len = 1]
  have b: "exec_op sum_digest no_codec no_codec ?pl [0x41] 0 ?copy [0x07]
      = (Raised (IncrementalNotSupported (Some ''SOURCE_COPY'')), [0x07])"
    by (simp add: OP_SOURCE_COPY_def)
  from a b show ?thesis by simp
qed

text \<open>
  C4 as stated fails for the kinds that take the common path: a Zstd operation with a
  present digest that does not match ends with the hash-mismatch report, not with the
  unsupported-kind error. (The digest here has one byte, so it differs from every
  32-byte digest.)
\<close>

theorem zstd_with_bad_digest_reports_hash_mismatch:
  "exec_op sum_digest no_codec no_codec
     \<lparr>path = [], data_offset_p = 0, block_size = PInt 4096, partitions = []\<rparr>
     [0x41] 0
     \<lparr>op_type = PInt 14, data_offset = PInt 0, data_length = PInt 1,
      dst_extents = [(PInt 0, PInt 1)], data_sha256 = PBytes [0x00]\<rparr>
     []
   = (Failed (HashMismatch 0), [])
   \<and> OP_NAMES (PInt 14) = Some ''ZSTD''"
  by (simp add: exec_op_def sum_digest_def pyslice_def Let_def
      OP_ZERO_def OP_SOURCE_COPY_def OP_SOURCE_BSDIFF_def OP_PUFFDIFF_def)


section \<open>Concrete containers\<close>










section \<open>Facts about the builder and the orchestrator\<close>


lemma foldl_upd_lookup:
  "foldl (\<lambda>m p. m(name p \<mapsto> p)) m ps n =
     (case find (\<lambda>q. name q = n) (rev ps) of Some q \<Rightarrow> Some q | None \<Rightarrow> m n)"
  by (induction ps rule: rev_induct) auto

lemma by_name_last: "by_name ps n = find (\<lambda>q. name q = n) (rev ps)"
  by (simp add: by_name_def foldl_upd_lookup split: option.splits)

lemma by_name_None: "by_name ps n = None \<longleftrightarrow> n \<notin> name ` set ps"
  by (auto simp: by_name_last find_None_iff)

lemma set_sorted_names: "set (sorted_names ps) = name ` set ps"
  by (simp add: sorted_names_def)






















section \<open>Claims about loading, listing and extraction\<close>





text \<open>
  C7. When a requested name is not the name of a partition of the payload,
  \<^verbatim>\<open>cmd_extract\<close> returns \<^verbatim>\<open>False\<close> reporting a requested name that is absent and the
  sorted names that are available; the state of the file system is the one it started
  from, whatever the file system does: no directory is made, no file is created and no
  partition is extracted, not even those requested before the unknown name.
\<close>

theorem unknown_name_extracts_nothing:
  assumes req: "n \<in> set names" and absent: "n \<notin> name ` set (partitions payload)"
  shows "\<exists>m. cmd_extract os fmt sha lzma bz payload names output_dir fs
               = (Failed (NotFound m (sorted_names (partitions payload))), fs)
             \<and> m \<in> set names \<and> m \<notin> name ` set (partitions payload)
             \<and> set (sorted_names (partitions payload)) = name ` set (partitions payload)"
proof -
  from req absent have "\<exists>x \<in> set names. by_name (partitions payload) x = None"
    by (auto simp: by_name_None)
  then obtain m where
    m: "find (\<lambda>x. by_name (partitions payload) x = None) names = Some m"
    by (cases "find (\<lambda>x. by_name (partitions payload) x = None) names")
      (auto simp: find_None_iff)
  then have "m \<in> set names" and "by_name (partitions payload) m = None"
    by (auto simp: find_Some_iff)
  with m show ?thesis
    by (auto simp: cmd_extract_def by_name_None set_sorted_names)
qed

theorem unknown_name_extracts_nothing_witness:
  "cmd_extract mem_os blank_fmt sum_digest no_codec no_codec
     \<lparr>path = [0x70], data_offset_p = 24, block_size = PInt 4096,
      partitions = [\<lparr>name = [0x62, 0x6F, 0x6F, 0x74], operations = [], size_p = PInt 0\<rparr>]\<rparr>
     [[0x62, 0x6F, 0x6F, 0x74], [0x6E, 0x6F, 0x70, 0x65]] [0x6F, 0x75, 0x74] []
   = (Failed (NotFound [0x6E, 0x6F, 0x70, 0x65] [[0x62, 0x6F, 0x6F, 0x74]]), [])"
proof -
  let ?pl = "\<lparr>path = [0x70], data_offset_p = 24, block_size = PInt 4096,
      partitions = [\<lparr>name = [0x62, 0x6F, 0x6F, 0x74], operations = [], size_p = PInt 0\<rparr>]\<rparr>"
  let ?names = "[[0x62, 0x6F, 0x6F, 0x74], [0x6E, 0x6F, 0x70, 0x65 :: byte]]"
  have req: "[0x6E, 0x6F, 0x70, 0x65] \<in> set ?names" by simp
  have absent: "[0x6E, 0x6F, 0x70, 0x65] \<notin> name ` set (partitions ?pl)" by simp
  from unknown_name_extracts_nothing [OF req absent, of mem_os blank_fmt sum_digest no_codec
      no_codec "[0x6F, 0x75, 0x74]" "[]"]
  obtain m where
    r: "cmd_extract mem_os blank_fmt sum_digest no_codec no_codec ?pl ?names [0x6F, 0x75, 0x74] []
          = (Failed (NotFound m (sorted_names (partitions ?pl))), [])"
    and m: "m \<in> set ?names" "m \<notin> name ` set (partitions ?pl)"
    by blast
  from m have "m = [0x6E, 0x6F, 0x70, 0x65]" by auto
  with r show ?thesis by (simp add: sorted_names_def)
qed



end
